theory Spec2Isabelle
  imports Complex_Main
begin

section \<open>Values shared by the driver and the service\<close>

text \<open>
  Python \<open>bytes\<close> and the ASCII \<open>str\<close> values of the program are both lists of
  8-bit characters. Every string the service encodes with \<open>.encode("utf-8")\<close> is
  ASCII, where the encoding is the identity on the bytes.
\<close>

type_synonym bytes = "char list"

text \<open>
  The exceptions of \<open>src/drivers/usb_camera.py\<close>. The driver raises
  \<open>RuntimeError\<close> at four places, told apart by their messages only; each place has
  its own constructor, named after the error taxonomy of the specification:
  \<^item> \<open>DeviceUnavailable None\<close>: no index was found by the probe (line 59);
  \<^item> \<open>DeviceUnavailable (Some i)\<close>: index \<open>i\<close> could not be opened (line 64);
  \<^item> \<open>DeviceNotReady\<close>: the device opened but the verification read failed (line 75);
  \<^item> \<open>NotOpen\<close>: \<open>read()\<close> before \<open>open()\<close> (line 107).
  The others are Python's own.
\<close>

datatype error =
    DeviceUnavailable "int option"
  | DeviceNotReady
  | NotOpen
  | AssertionError
  | AttributeError
  | ZeroDivisionError

text \<open>\<open>str(n)\<close> for a non-negative integer: its decimal digits.\<close>

definition digit :: "nat \<Rightarrow> char" where
  "digit d = ''0123456789'' ! d"

fun str_nat :: "nat \<Rightarrow> string" where
  "str_nat n = (if n < 10 then [digit n] else str_nat (n div 10) @ [digit (n mod 10)])"

declare str_nat.simps [simp del]

section \<open>The measurement (\<open>src/models/measurement.py\<close>)\<close>

record measurement =
  timestamp :: string
  data :: bytes
  meta :: "string \<rightharpoonup> string"
  semantic_id :: "string option"

section \<open>The camera driver (\<open>src/drivers/usb_camera.py\<close>)\<close>

subsection \<open>What OpenCV and the clock answer\<close>

text \<open>
  A raw frame as \<open>cv2.VideoCapture.read\<close> returns it: \<open>frame.shape[:2]\<close> is
  \<open>(rows, cols)\<close>.
\<close>

record frame =
  rows :: nat
  cols :: nat
  pixels :: bytes

text \<open>
  An opened \<open>cv2.VideoCapture\<close>: the index and the backend it was opened with.
\<close>

datatype video_capture = VideoCapture int int

definition CAP_DSHOW :: int where
  "CAP_DSHOW = 700"

text \<open>
  The world a driver call runs in. \<open>clock\<close> is what \<open>time.perf_counter()\<close> returns,
  \<open>slept\<close> lists the arguments of the \<open>time.sleep\<close> calls made so far and
  \<open>shots\<close> the clock readings at which the underlying \<open>_cap.read()\<close> was called.
\<close>

record world =
  clock :: real
  slept :: "real list"
  shots :: "real list"

text \<open>
  What the environment answers during one \<open>read()\<close>: how much longer than asked a
  \<open>time.sleep\<close> lasts, what the camera returns (\<open>None\<close> when \<open>ok\<close> is false or the
  frame is \<open>None\<close>), what \<open>cv2.imencode\<close> returns for a frame and a quality
  (\<open>None\<close> when it reports failure), and the string \<open>Measurement.now_iso()\<close> gives.
\<close>

record read_env =
  overshoot :: real
  camera :: "frame option"
  imencode :: "frame \<Rightarrow> int \<Rightarrow> bytes option"
  now_iso :: string

text \<open>
  What the environment answers during one \<open>open()\<close>: for each index the probe tries,
  whether \<open>VideoCapture(i, CAP_DSHOW)\<close> is opened and whether its first read succeeds;
  then whether \<open>VideoCapture(device_index, backend)\<close> is opened and whether the
  verification read on it succeeds.
\<close>

record open_env =
  probe :: "nat \<Rightarrow> bool \<times> bool"
  is_opened :: bool
  verify_ok :: bool

definition py_sleep :: "real \<Rightarrow> real \<Rightarrow> world \<Rightarrow> world" where
  "py_sleep secs over w = w\<lparr>clock := clock w + secs + over, slept := slept w @ [secs]\<rparr>"

definition py_truediv :: "real \<Rightarrow> real \<Rightarrow> error + real" where
  "py_truediv a b = (if b = 0 then Inl ZeroDivisionError else Inr (a / b))"

subsection \<open>\<open>_probe_device_index\<close>\<close>

text \<open>
  The loop \<open>for i in range(max_index)\<close> over the list of its indices. A capture that
  opened is released before the loop goes on (line 21), whatever its read returned.
\<close>

fun probe_loop :: "(nat \<Rightarrow> bool \<times> bool) \<Rightarrow> nat list \<Rightarrow> nat option" where
  "probe_loop ans [] = None"
| "probe_loop ans (i # is) =
     (case ans i of
        (opened, ret) \<Rightarrow>
          if opened then (if ret then Some i else probe_loop ans is)
          else probe_loop ans is)"

definition probe_device_index :: "(nat \<Rightarrow> bool \<times> bool) \<Rightarrow> nat \<Rightarrow> nat option" where
  "probe_device_index ans max_index = probe_loop ans [0..<max_index]"

subsection \<open>\<open>USBCameraDriver\<close>\<close>

record usb_camera_driver =
  device_index :: "int option"
  width :: int
  height :: int
  fps :: int
  jpeg_quality :: int
  backend :: int
  cap :: "video_capture option"
  last_frame_ts :: real
  frame_interval :: real

text \<open>\<open>__init__\<close>: the only operation that can raise is the division of line 53.\<close>

definition USBCameraDriver_init ::
  "int option \<Rightarrow> int \<Rightarrow> int \<Rightarrow> int \<Rightarrow> int \<Rightarrow> int \<Rightarrow> error + usb_camera_driver" where
  "USBCameraDriver_init device_index' width' height' fps' jpeg_quality' backend' =
     (case py_truediv 1 (real_of_int (max 1 fps')) of
        Inl e \<Rightarrow> Inl e
      | Inr iv \<Rightarrow>
          Inr \<lparr>device_index = device_index', width = width', height = height', fps = fps',
               jpeg_quality = jpeg_quality', backend = backend', cap = None,
               last_frame_ts = 0, frame_interval = iv\<rparr>)"

text \<open>
  \<open>open\<close>. A raise leaves the fields assigned before it as they are, so the result is
  the exception, if any, with the driver as the call left it.
\<close>

definition USBCameraDriver_open :: "usb_camera_driver \<Rightarrow> open_env \<Rightarrow> error option \<times> usb_camera_driver" where
  "USBCameraDriver_open d env =
     (case (case device_index d of
              None \<Rightarrow>
                (case probe_device_index (probe env) 10 of
                   None \<Rightarrow> Inl (DeviceUnavailable None)
                 | Some idx \<Rightarrow> Inr (d\<lparr>device_index := Some (int idx)\<rparr>, int idx))
            | Some i \<Rightarrow> Inr (d, i)) of
        Inl e \<Rightarrow> (Some e, d)
      | Inr (d1, i) \<Rightarrow>
          if \<not> is_opened env then (Some (DeviceUnavailable (Some i)), d1)
          else if \<not> verify_ok env then (Some DeviceNotReady, d1)
          else (None, d1\<lparr>cap := Some (VideoCapture i (backend d1)), last_frame_ts := 0\<rparr>))"

text \<open>\<open>_grab_encoded\<close>: one call of the underlying \<open>_cap.read()\<close>, then the encoding.\<close>

definition USBCameraDriver_grab_encoded ::
  "usb_camera_driver \<Rightarrow> world \<Rightarrow> read_env \<Rightarrow> (error + (bytes \<times> (string \<rightharpoonup> string)) option) \<times> world" where
  "USBCameraDriver_grab_encoded d w env =
     (case cap d of
        None \<Rightarrow> (Inl AssertionError, w)
      | Some c \<Rightarrow>
          (let w1 = w\<lparr>shots := shots w @ [clock w]\<rparr> in
           case camera env of
             None \<Rightarrow> (Inr None, w1)
           | Some fr \<Rightarrow>
               (case imencode env fr (jpeg_quality d) of
                  None \<Rightarrow> (Inr None, w1)
                | Some buf \<Rightarrow>
                    (Inr (Some (buf,
                       [''width'' \<mapsto> str_nat (cols fr),
                        ''height'' \<mapsto> str_nat (rows fr),
                        ''format'' \<mapsto> ''jpeg''])), w1))))"

text \<open>\<open>read\<close>: the state check, the pacing, the stamp, the capture.\<close>

definition USBCameraDriver_read ::
  "usb_camera_driver \<Rightarrow> world \<Rightarrow> read_env \<Rightarrow>
     (error + measurement option) \<times> usb_camera_driver \<times> world" where
  "USBCameraDriver_read d w env =
     (if cap d = None then (Inl NotOpen, d, w)
      else
        (let now = clock w;
             dt = now - last_frame_ts d;
             w1 = (if dt < frame_interval d
                   then py_sleep (frame_interval d - dt) (overshoot env) w else w);
             d1 = d\<lparr>last_frame_ts := clock w1\<rparr>
         in case USBCameraDriver_grab_encoded d1 w1 env of
              (Inl e, w2) \<Rightarrow> (Inl e, d1, w2)
            | (Inr None, w2) \<Rightarrow> (Inr None, d1, w2)
            | (Inr (Some (buf, m)), w2) \<Rightarrow>
                (Inr (Some \<lparr>timestamp = now_iso env, data = buf, meta = m,
                            semantic_id = None\<rparr>), d1, w2)))"

text \<open>\<open>close\<close>: releases the capture if there is one (OpenCV's release does not raise).\<close>

definition USBCameraDriver_close :: "usb_camera_driver \<Rightarrow> usb_camera_driver" where
  "USBCameraDriver_close d = (if cap d \<noteq> None then d\<lparr>cap := None\<rparr> else d)"

section \<open>The frame grabber (\<open>scripts/run_usb_camera_api.py\<close>)\<close>

subsection \<open>Configuration and state\<close>

text \<open>The module constants read from the process environment (lines 16 to 21).\<close>

record config =
  CAMERA_INDEX :: int
  DEFAULT_ENABLED :: bool
  WIDTH :: int
  HEIGHT :: int
  FPS :: int
  JPEG_QUALITY :: int

text \<open>
  Where a thread running \<open>_loop\<close> stands: started and not yet past line 43, at the
  test of the \<open>while\<close> (line 45), inside \<open>self.driver.read()\<close> (line 46), or ended.
\<close>

datatype phase = Entering | AtCheck | InRead | Dead

text \<open>
  \<open>threads\<close> holds every thread the grabber has started, in the order of their
  creation; \<open>thread\<close> is the attribute \<open>self.thread\<close>, an index into it.
  \<open>stop_evt\<close> is whether the event is set. \<open>camera_index\<close> is the grabber's
  attribute \<open>device_index\<close> (the name is the driver's field already).
\<close>

record frame_grabber =
  enabled :: bool
  camera_index :: int
  driver :: "usb_camera_driver option"
  thread :: "nat option"
  threads :: "phase list"
  stop_evt :: bool
  latest_frame :: "bytes option"
  latest_meta :: "string \<rightharpoonup> string"
  running :: bool

text \<open>
  How \<open>self.thread.join(timeout=2.0)\<close> returns: because the thread has ended, or
  because the two seconds have passed with the thread still alive.
\<close>

datatype join_outcome = Joined | TimedOut

text \<open>What \<open>self.driver.read()\<close> gives the loop that called it.\<close>

datatype read_answer = Frame measurement | NoFrame | Raised error

definition FrameGrabber_init :: "config \<Rightarrow> frame_grabber" where
  "FrameGrabber_init cfg =
     \<lparr>enabled = DEFAULT_ENABLED cfg, camera_index = CAMERA_INDEX cfg, driver = None,
      thread = None, threads = [], stop_evt = False, latest_frame = None,
      latest_meta = Map.empty, running = False\<rparr>"

text \<open>\<open>self.thread and self.thread.is_alive()\<close>.\<close>

definition thread_alive :: "frame_grabber \<Rightarrow> bool" where
  "thread_alive g =
     (case thread g of
        None \<Rightarrow> False
      | Some t \<Rightarrow> t < length (threads g) \<and> threads g ! t \<noteq> Dead)"

subsection \<open>The background loop, step by step\<close>

text \<open>The \<open>finally\<close> of \<open>_loop\<close>, after which the thread has ended.\<close>

definition loop_exit :: "nat \<Rightarrow> frame_grabber \<Rightarrow> frame_grabber" where
  "loop_exit t g = g\<lparr>running := False, threads := (threads g)[t := Dead]\<rparr>"

text \<open>
  One step of thread \<open>t\<close>.
  \<^item> Entering: the assertion of line 42 (a failure ends the thread before the
    \<open>try\<close>, so \<open>running\<close> is not touched), then \<open>running = True\<close>.
  \<^item> At the test: leave when the event is set; otherwise call
    \<open>self.driver.read()\<close>, which raises at once when there is no driver
    (\<open>AttributeError\<close>) or the driver is not open.
  \<^item> Inside the read: the answer arrives. A measurement is published under the
    lock, no frame is followed by the short sleep, an exception goes through the
    \<open>finally\<close>.
  The answer \<open>ans\<close> is read by a step inside the read only. What the read does
  inside the driver (its pacing stamp) is not seen by the grabber and is left out
  here; a step outside the list of threads, or of a thread that has ended, does
  nothing.
\<close>

definition loop_step :: "nat \<Rightarrow> read_answer \<Rightarrow> frame_grabber \<Rightarrow> frame_grabber" where
  "loop_step t ans g =
     (if \<not> t < length (threads g) then g
      else case threads g ! t of
        Entering \<Rightarrow>
          (case driver g of
             None \<Rightarrow> g\<lparr>threads := (threads g)[t := Dead]\<rparr>
           | Some d \<Rightarrow> g\<lparr>running := True, threads := (threads g)[t := AtCheck]\<rparr>)
      | AtCheck \<Rightarrow>
          if stop_evt g then loop_exit t g
          else (case driver g of
                  None \<Rightarrow> loop_exit t g
                | Some d \<Rightarrow>
                    if cap d = None then loop_exit t g
                    else g\<lparr>threads := (threads g)[t := InRead]\<rparr>)
      | InRead \<Rightarrow>
          (case ans of
             Frame m \<Rightarrow>
               g\<lparr>latest_frame := Some (data m), latest_meta := meta m,
                 threads := (threads g)[t := AtCheck]\<rparr>
           | NoFrame \<Rightarrow> g\<lparr>threads := (threads g)[t := AtCheck]\<rparr>
           | Raised e \<Rightarrow> loop_exit t g)
      | Dead \<Rightarrow> g)"

text \<open>
  Thread \<open>t\<close> run to its end once the stop event is set, which is what a join that
  does not time out has waited for. Whatever the thread published on the way is
  overwritten by the caller, \<open>stop\<close>, right after.
\<close>

definition loop_finish :: "nat \<Rightarrow> frame_grabber \<Rightarrow> frame_grabber" where
  "loop_finish t g =
     (case threads g ! t of
        Entering \<Rightarrow>
          (case driver g of
             None \<Rightarrow> g\<lparr>threads := (threads g)[t := Dead]\<rparr>
           | Some d \<Rightarrow> loop_exit t g)
      | AtCheck \<Rightarrow> loop_exit t g
      | InRead \<Rightarrow> loop_exit t g
      | Dead \<Rightarrow> g)"

subsection \<open>\<open>FrameGrabber\<close>'s methods\<close>

text \<open>
  \<open>_open_driver\<close>: the new driver is stored in \<open>self.driver\<close> before \<open>open()\<close> is
  called on it, so it stays there when \<open>open()\<close> raises.
\<close>

definition FrameGrabber_open_driver ::
  "config \<Rightarrow> frame_grabber \<Rightarrow> open_env \<Rightarrow> error option \<times> frame_grabber" where
  "FrameGrabber_open_driver cfg g env =
     (case USBCameraDriver_init (Some (camera_index g)) (WIDTH cfg) (HEIGHT cfg) (FPS cfg)
             (JPEG_QUALITY cfg) CAP_DSHOW of
        Inl e \<Rightarrow> (Some e, g)
      | Inr d \<Rightarrow>
          (case USBCameraDriver_open d env of
             (r, d') \<Rightarrow> (r, g\<lparr>driver := Some d'\<rparr>)))"

text \<open>\<open>_close_driver\<close>: the driver is closed, if there is one, and forgotten.\<close>

definition FrameGrabber_close_driver :: "frame_grabber \<Rightarrow> frame_grabber" where
  "FrameGrabber_close_driver g =
     (case driver g of
        None \<Rightarrow> g\<lparr>driver := None\<rparr>
      | Some d \<Rightarrow> (case USBCameraDriver_close d of d' \<Rightarrow> g\<lparr>driver := None\<rparr>))"

definition FrameGrabber_start ::
  "config \<Rightarrow> frame_grabber \<Rightarrow> open_env \<Rightarrow> error option \<times> frame_grabber" where
  "FrameGrabber_start cfg g env =
     (if thread_alive g then (None, g)
      else
        (case FrameGrabber_open_driver cfg (g\<lparr>stop_evt := False\<rparr>) env of
           (Some e, g1) \<Rightarrow> (Some e, g1)
         | (None, g1) \<Rightarrow>
             (None, g1\<lparr>thread := Some (length (threads g1)),
                       threads := threads g1 @ [Entering]\<rparr>)))"

definition FrameGrabber_stop :: "frame_grabber \<Rightarrow> join_outcome \<Rightarrow> frame_grabber" where
  "FrameGrabber_stop g j =
     (let g1 = g\<lparr>stop_evt := True\<rparr>;
          g2 = (case thread g1 of
                  None \<Rightarrow> g1
                | Some t \<Rightarrow>
                    if thread_alive g1 \<and> j = Joined then loop_finish t g1 else g1);
          g3 = g2\<lparr>thread := None\<rparr>;
          g4 = FrameGrabber_close_driver g3
      in g4\<lparr>latest_frame := None, latest_meta := Map.empty\<rparr>)"

definition FrameGrabber_set_enabled ::
  "config \<Rightarrow> frame_grabber \<Rightarrow> bool \<Rightarrow> open_env \<Rightarrow> join_outcome \<Rightarrow>
     error option \<times> frame_grabber" where
  "FrameGrabber_set_enabled cfg g flag env j =
     (if flag = enabled g then (None, g)
      else
        (let g1 = g\<lparr>enabled := flag\<rparr>
         in if enabled g1 then FrameGrabber_start cfg g1 env
            else (None, FrameGrabber_stop g1 j)))"


definition FrameGrabber_get_meta :: "frame_grabber \<Rightarrow> (string \<rightharpoonup> string)" where
  "FrameGrabber_get_meta g = latest_meta g"

text \<open>
  Lines 108 to 116: the module creates the grabber and, when it is enabled, starts it;
  a failure of that start is printed and swallowed.
\<close>

definition boot :: "config \<Rightarrow> open_env \<Rightarrow> frame_grabber" where
  "boot cfg env =
     (let grabber = FrameGrabber_init cfg
      in if enabled grabber then snd (FrameGrabber_start cfg grabber env) else grabber)"

section \<open>The HTTP service (\<open>scripts/run_usb_camera_api.py\<close>)\<close>

text \<open>The \<open>detail\<close> of an \<open>HTTPException\<close>: one of the three fixed texts, or \<open>str(e)\<close>.\<close>

datatype detail =
    Missing_enabled_boolean
  | Camera_disabled
  | No_frame_available_yet
  | Str error

text \<open>
  What a handler gives back: a raised \<open>HTTPException(status_code, detail)\<close>, the JSON
  bodies \<open>{"enabled": b}\<close> and \<open>{"ok": True}\<close>, a \<open>Response(content, media_type)\<close>, or
  a \<open>StreamingResponse\<close> with its headers.
\<close>

datatype response =
    HTTPException nat detail
  | Json_enabled bool
  | Json_ok
  | Response bytes string
  | StreamingResponse "(string \<times> string) list"


definition camera_enable ::
  "config \<Rightarrow> frame_grabber \<Rightarrow> (string \<rightharpoonup> bool) \<Rightarrow> open_env \<Rightarrow> join_outcome \<Rightarrow>
     response \<times> frame_grabber" where
  "camera_enable cfg grabber payload env j =
     (case payload ''enabled'' of
        None \<Rightarrow> (HTTPException 400 Missing_enabled_boolean, grabber)
      | Some en \<Rightarrow>
          (case FrameGrabber_set_enabled cfg grabber en env j of
             (Some e, g') \<Rightarrow> (HTTPException 500 (Str e), g')
           | (None, g') \<Rightarrow> (Json_enabled (enabled g'), g')))"


text \<open>
  \<open>camera_stream\<close> and its generator. One iteration of the generator's
  \<open>while True\<close> either leaves the loop, yields one chunk, or sleeps and goes round
  again; the grabber may have changed by the next iteration. \<open>if frame\<close> is the
  truth value again: a frame that is \<open>None\<close> or empty is not sent.
\<close>

definition stream_headers :: "string \<Rightarrow> (string \<times> string) list" where
  "stream_headers boundary =
     [(''Age'', ''0''),
      (''Cache-Control'', ''no-cache, private''),
      (''Pragma'', ''no-cache''),
      (''Content-Type'', ''multipart/x-mixed-replace; boundary=--'' @ boundary)]"

definition camera_stream :: "frame_grabber \<Rightarrow> response" where
  "camera_stream grabber =
     (if \<not> enabled grabber then HTTPException 409 Camera_disabled
      else StreamingResponse (stream_headers ''frame''))"



definition camera_reopen ::
  "config \<Rightarrow> frame_grabber \<Rightarrow> join_outcome \<Rightarrow> open_env \<Rightarrow> response \<times> frame_grabber" where
  "camera_reopen cfg grabber j env =
     (if \<not> enabled grabber then (HTTPException 409 Camera_disabled, grabber)
      else
        (case FrameGrabber_start cfg (FrameGrabber_stop grabber j) env of
           (Some e, g') \<Rightarrow> (HTTPException 500 (Str e), g')
         | (None, g') \<Rightarrow> (Json_ok, g')))"

subsection \<open>Runs of the service\<close>

text \<open>
  What changes the grabber after the module is loaded: a \<open>PUT /camera/enable\<close>, a
  \<open>POST /camera/reopen\<close>, and the steps of the loop threads. A request is taken as
  one step: the handlers are not interleaved with each other.
\<close>

datatype event =
    PutEnable "string \<rightharpoonup> bool" open_env join_outcome
  | PostReopen join_outcome open_env
  | LoopStep nat read_answer

fun step :: "config \<Rightarrow> frame_grabber \<Rightarrow> event \<Rightarrow> frame_grabber" where
  "step cfg g (PutEnable payload env j) = snd (camera_enable cfg g payload env j)"
| "step cfg g (PostReopen j env) = snd (camera_reopen cfg g j env)"
| "step cfg g (LoopStep t ans) = loop_step t ans g"

definition run :: "config \<Rightarrow> frame_grabber \<Rightarrow> event list \<Rightarrow> frame_grabber" where
  "run cfg g evs = foldl (step cfg) g evs"


section \<open>Predicates of the statements\<close>

text \<open>
  An index qualifies in the probe when \<open>VideoCapture(i, CAP_DSHOW)\<close> is opened and its
  first read succeeds (lines 19 to 23).
\<close>

definition qualifies :: "open_env \<Rightarrow> nat \<Rightarrow> bool" where
  "qualifies env i = (fst (probe env i) \<and> snd (probe env i))"

text \<open>A driver whose interval is the one \<open>__init__\<close> computes from its \<open>fps\<close>.\<close>

definition paced :: "usb_camera_driver \<Rightarrow> bool" where
  "paced d = (frame_interval d = 1 / real_of_int (max 1 (fps d)))"





text \<open>The number a string of decimal digits denotes.\<close>

fun dec_value :: "string \<Rightarrow> nat" where
  "dec_value s = foldl (\<lambda>a c. 10 * a + (of_char c - 48)) 0 s"

section \<open>Concrete inputs\<close>

definition driver0 :: usb_camera_driver where
  "driver0 = \<lparr>device_index = None, width = 640, height = 480, fps = 10, jpeg_quality = 85,
     backend = CAP_DSHOW, cap = None, last_frame_ts = 0, frame_interval = 1 / 10\<rparr>"

definition opened0 :: usb_camera_driver where
  "opened0 = driver0\<lparr>device_index := Some 1, cap := Some (VideoCapture 1 CAP_DSHOW)\<rparr>"


definition env_ok :: open_env where
  "env_ok = \<lparr>probe = (\<lambda>i. (True, True)), is_opened = True, verify_ok = True\<rparr>"




definition cfg0 :: config where
  "cfg0 = \<lparr>CAMERA_INDEX = 1, DEFAULT_ENABLED = True, WIDTH = 640, HEIGHT = 480, FPS = 10,
     JPEG_QUALITY = 85\<rparr>"



text \<open>The grabber \<open>cfg0\<close> boots into, once its loop is inside its first read.\<close>

definition g_reading :: frame_grabber where
  "g_reading =
     \<lparr>enabled = True, camera_index = 1, driver = Some opened0, thread = Some 0,
      threads = [InRead], stop_evt = False, latest_frame = None, latest_meta = Map.empty,
      running = True\<rparr>"

section \<open>The probe and \<open>open\<close>\<close>

lemma probe_loop_first:
  "i \<in> set xs \<Longrightarrow> fst (ans i) \<and> snd (ans i) \<Longrightarrow> sorted xs \<Longrightarrow> distinct xs \<Longrightarrow>
   \<forall>j \<in> set xs. j < i \<longrightarrow> \<not> (fst (ans j) \<and> snd (ans j)) \<Longrightarrow> probe_loop ans xs = Some i"
proof (induction xs)
  case Nil
  then show ?case by simp
next
  case (Cons x xs)
  show ?case
  proof (cases "x = i")
    case True
    with Cons.prems(2) show ?thesis by (auto split: prod.splits)
  next
    case False
    with Cons.prems have "i \<in> set xs" "x < i" by auto
    with Cons.prems have nx: "\<not> (fst (ans x) \<and> snd (ans x))" by auto
    have "probe_loop ans xs = Some i"
      using Cons.IH \<open>i \<in> set xs\<close> Cons.prems by auto
    with nx show ?thesis by (auto split: prod.splits)
  qed
qed

lemma probe_loop_none:
  "\<forall>j \<in> set xs. \<not> (fst (ans j) \<and> snd (ans j)) \<Longrightarrow> probe_loop ans xs = None"
  by (induction xs) (auto split: prod.splits)

lemma probe_device_index_first:
  assumes "i < n" "qualifies env i" "\<forall>j<i. \<not> qualifies env j"
  shows "probe_device_index (probe env) n = Some i"
  unfolding probe_device_index_def
  by (rule probe_loop_first) (use assms in \<open>auto simp: qualifies_def\<close>)

lemma probe_device_index_none:
  assumes "\<forall>i<n. \<not> qualifies env i"
  shows "probe_device_index (probe env) n = None"
  unfolding probe_device_index_def
  by (rule probe_loop_none) (use assms in \<open>auto simp: qualifies_def\<close>)

text \<open>
  Claim C6. With no explicit index, \<open>open\<close> probes the indices 0 to 9 in ascending
  order and selects the first one that both opens and yields a successful read: when
  \<open>i\<close> below 10 qualifies and no smaller index does, \<open>device_index\<close> becomes \<open>i\<close>,
  the call does not end with the probe's error, and when the capture then opens and
  its verification read succeeds the driver holds the capture of index \<open>i\<close>. When no
  index below 10 qualifies, the call raises the error for an unavailable device and
  leaves the driver exactly as it was, so no capture is held.
\<close>

theorem open_probes_in_ascending_order:
  assumes "device_index d = None"
  shows "(i < 10 \<and> qualifies env i \<and> (\<forall>j<i. \<not> qualifies env j) \<longrightarrow>
            device_index (snd (USBCameraDriver_open d env)) = Some (int i) \<and>
            fst (USBCameraDriver_open d env) \<noteq> Some (DeviceUnavailable None) \<and>
            (is_opened env \<and> verify_ok env \<longrightarrow>
               fst (USBCameraDriver_open d env) = None \<and>
               cap (snd (USBCameraDriver_open d env)) = Some (VideoCapture (int i) (backend d)))) \<and>
         ((\<forall>i<10. \<not> qualifies env i) \<longrightarrow>
            USBCameraDriver_open d env = (Some (DeviceUnavailable None), d))"
proof (intro conjI impI)
  assume a: "i < 10 \<and> qualifies env i \<and> (\<forall>j<i. \<not> qualifies env j)"
  then have p: "probe_device_index (probe env) 10 = Some i"
    by (intro probe_device_index_first) auto
  show "device_index (snd (USBCameraDriver_open d env)) = Some (int i)"
    using assms p by (simp add: USBCameraDriver_open_def)
  show "fst (USBCameraDriver_open d env) \<noteq> Some (DeviceUnavailable None)"
    using assms p by (simp add: USBCameraDriver_open_def)
  assume "is_opened env \<and> verify_ok env"
  then show "fst (USBCameraDriver_open d env) = None"
    "cap (snd (USBCameraDriver_open d env)) = Some (VideoCapture (int i) (backend d))"
    using assms p by (simp_all add: USBCameraDriver_open_def)
next
  assume "\<forall>i<10. \<not> qualifies env i"
  then have "probe_device_index (probe env) 10 = None"
    by (rule probe_device_index_none)
  then show "USBCameraDriver_open d env = (Some (DeviceUnavailable None), d)"
    using assms by (simp add: USBCameraDriver_open_def)
qed

theorem open_probes_in_ascending_order_witness:
  "device_index (snd (USBCameraDriver_open driver0
       \<lparr>probe = (\<lambda>i. (2 \<le> i, 3 \<le> i)), is_opened = True, verify_ok = True\<rparr>)) = Some 3 \<and>
   cap (snd (USBCameraDriver_open driver0
       \<lparr>probe = (\<lambda>i. (2 \<le> i, 3 \<le> i)), is_opened = True, verify_ok = True\<rparr>)) = Some (VideoCapture 3 CAP_DSHOW) \<and>
   USBCameraDriver_open driver0 \<lparr>probe = (\<lambda>i. (True, False)), is_opened = True, verify_ok = True\<rparr>
     = (Some (DeviceUnavailable None), driver0)"
proof -
  have d: "device_index driver0 = None" by (simp add: driver0_def)
  have q: "(3::nat) < 10 \<and> qualifies \<lparr>probe = (\<lambda>i. (2 \<le> i, 3 \<le> i)), is_opened = True, verify_ok = True\<rparr> 3
      \<and> (\<forall>j<3. \<not> qualifies \<lparr>probe = (\<lambda>i. (2 \<le> i, 3 \<le> i)), is_opened = True, verify_ok = True\<rparr> j)"
    by (simp add: qualifies_def)
  have n: "\<forall>i<10. \<not> qualifies \<lparr>probe = (\<lambda>i. (True, False)), is_opened = True, verify_ok = True\<rparr> i"
    by (simp add: qualifies_def)
  show ?thesis
    using open_probes_in_ascending_order [OF d, of 3 "\<lparr>probe = (\<lambda>i. (2 \<le> i, 3 \<le> i)), is_opened = True, verify_ok = True\<rparr>"]
      open_probes_in_ascending_order [OF d, of 0 "\<lparr>probe = (\<lambda>i. (True, False)), is_opened = True, verify_ok = True\<rparr>"]
      q n
    by (simp add: driver0_def)
qed

section \<open>The pacing of \<open>read\<close>\<close>

text \<open>
  The constructor sets the interval from \<open>fps\<close> and no method changes either, so
  every driver the program works with is paced.
\<close>

lemma init_paced: "USBCameraDriver_init di wd ht f q b = Inr d \<Longrightarrow> paced d"
  by (auto simp: USBCameraDriver_init_def py_truediv_def paced_def split: if_splits)

lemma open_paced: "paced d \<Longrightarrow> paced (snd (USBCameraDriver_open d env))"
  by (auto simp: USBCameraDriver_open_def paced_def split: option.splits)

lemma close_paced: "paced d \<Longrightarrow> paced (USBCameraDriver_close d)"
  by (auto simp: USBCameraDriver_close_def paced_def)

lemma read_paced:
  "paced d \<Longrightarrow> USBCameraDriver_read d w env = (r, d', w') \<Longrightarrow> paced d'"
  by (auto simp: USBCameraDriver_read_def USBCameraDriver_grab_encoded_def paced_def Let_def
      split: option.splits if_splits sum.splits prod.splits)








section \<open>Construction and the driver's states\<close>





section \<open>The grabber's invariant\<close>






lemma thread_alive_upd [simp]:
  "thread_alive (g\<lparr>stop_evt := b\<rparr>) = thread_alive g"
  "thread_alive (g\<lparr>enabled := e\<rparr>) = thread_alive g"
  by (simp_all add: thread_alive_def split: option.splits)
































section \<open>Some runs of the service\<close>

lemma boot_cfg0:
  "boot cfg0 env_ok =
     \<lparr>enabled = True, camera_index = 1, driver = Some opened0, thread = Some 0,
      threads = [Entering], stop_evt = False, latest_frame = None, latest_meta = Map.empty,
      running = False\<rparr>"
  by (simp add: boot_def FrameGrabber_init_def FrameGrabber_start_def thread_alive_def
      FrameGrabber_open_driver_def USBCameraDriver_init_def py_truediv_def
      USBCameraDriver_open_def cfg0_def env_ok_def opened0_def driver0_def Let_def)

lemma run_to_reading:
  "run cfg0 (boot cfg0 env_ok) [LoopStep 0 NoFrame, LoopStep 0 NoFrame] = g_reading"
  by (simp add: run_def boot_cfg0 loop_step_def g_reading_def opened0_def)





lemma run_to_stopped:
  "FrameGrabber_stop (run cfg0 (boot cfg0 env_ok) [LoopStep 0 NoFrame, LoopStep 0 NoFrame]) Joined =
   \<lparr>enabled = True, camera_index = 1, driver = None, thread = None,
      threads = [Dead], stop_evt = True, latest_frame = None,
      latest_meta = Map.empty, running = False\<rparr>"
  by (simp add: run_to_reading g_reading_def
      FrameGrabber_stop_def FrameGrabber_close_driver_def thread_alive_def loop_finish_def
      loop_exit_def Let_def opened0_def)










section \<open>Disabled means idle\<close>




section \<open>\<open>stop\<close> and the published frame\<close>























section \<open>A failed enable\<close>



section \<open>The handlers\<close>








section \<open>The chunks of the stream\<close>

lemma digit_value: "d < 10 \<Longrightarrow> (of_char (digit d) :: nat) = 48 + d"
proof -
  assume "d < 10"
  then have "d \<in> {0, 1, 2, 3, 4, 5, 6, 7, 8, 9}" by auto
  then show ?thesis by (auto simp: digit_def)
qed

lemma str_nat_decimal: "dec_value (str_nat n) = n"
proof (induction n rule: str_nat.induct)
  case (1 n)
  show ?case
  proof (cases "n < 10")
    case True
    then show ?thesis by (subst str_nat.simps) (simp add: digit_value)
  next
    case False
    then have "dec_value (str_nat (n div 10)) = n div 10" using "1" by simp
    then show ?thesis using False
      by (subst str_nat.simps) (simp add: digit_value)
  qed
qed




end
